theory Spec2Isabelle
  imports Complex_Main "HOL-Library.Sublist"
begin

section \<open>The price list converter\<close>

text \<open>
  The repository is one script, \<^verbatim>\<open>convert_excel_to_json.py\<close>: it loads a workbook
  into a pandas DataFrame, keeps five columns under new names, normalises three of them
  as strings and two as numbers, drops the rows that hold a missing value, writes the
  rest as a JSON array of records and prints how many rows it wrote.

  The script's own lines are embedded one by one. What the table library does inside a
  call is written out cell by cell as its documentation gives it (pandas before 3.0,
  where \<^verbatim>\<open>astype(str)\<close> turns a missing value into the text \<^verbatim>\<open>nan\<close>).
  Three things the library computes with floating-point numbers are taken as
  parameters of the model, since nothing in the script fixes them: \<open>parse\<close>, the numeric
  literal reader behind \<^verbatim>\<open>pd.to_numeric\<close>; \<open>repr\<close>, the text \<^verbatim>\<open>astype(str)\<close> gives for a
  number, which depends on the type of the column the number stands in and so takes the
  column as well; and \<open>dump\<close>, the decimal number the serializer writes for a finite
  number (by default it keeps ten decimals).
\<close>

subsection \<open>Cells, tables and JSON values\<close>

text \<open>
  A float64 value is abstracted to the rational it denotes, or to one of the two
  infinities; the missing value NaN is a cell of its own. Rounding is not modelled.
\<close>

datatype number = Finite rat | PosInf | NegInf

text \<open>
  A cell of a loaded sheet: missing (an empty cell is loaded as NaN), text, or a number.
  Booleans and dates are outside the model.
\<close>

datatype cell = NaN | Str string | Num number

text \<open>
  A DataFrame: the column labels in order, and the rows in order, each a list of cells
  in column order. A row shorter than the header has missing values in the columns it
  does not reach, as a loaded sheet has. \<^verbatim>\<open>read_excel\<close> makes the labels distinct.
\<close>

record dataframe =
  columns :: "string list"
  rows :: "cell list list"

datatype json = JNull | JString string | JNumber rat

type_synonym jobject = "(string \<times> json) list"

text \<open>
  The exceptions the script can end with. It catches none of them. The specification's
  \<open>SourceReadError\<close> is any of the first three, its \<open>SchemaError\<close> is \<open>KeyError\<close>, its
  \<open>WriteError\<close> is \<open>OSError\<close>.
\<close>

datatype error = FileNotFoundError | PermissionError | ValueError | KeyError | OSError

definition seq :: "error + 'a \<Rightarrow> ('a \<Rightarrow> error + 'b) \<Rightarrow> error + 'b" where
  "seq r f = (case r of Inl e \<Rightarrow> Inl e | Inr x \<Rightarrow> f x)"

subsection \<open>The library calls, cell by cell\<close>

text \<open>
  \<^verbatim>\<open>str.isspace\<close> on the code points a \<open>char\<close> can hold (below 256): tab, line feed,
  vertical tab, form feed, carriage return, the four separators 28 to 31, space, next
  line (133) and no-break space (160).
\<close>

definition isspace :: "char \<Rightarrow> bool" where
  "isspace c \<longleftrightarrow> of_char c \<in> {9, 10, 11, 12, 13, 28, 29, 30, 31, 32, 133, 160 :: nat}"

text \<open>\<^verbatim>\<open>str.strip()\<close>: the leading and the trailing whitespace go.\<close>

definition strip :: "string \<Rightarrow> string" where
  "strip s = rev (dropWhile isspace (rev (dropWhile isspace s)))"

text \<open>
  \<^verbatim>\<open>Series.astype(str)\<close>, on one element: it becomes its text; for the missing value
  that text is \<^verbatim>\<open>nan\<close>. The text of a number, \<open>text n\<close>, is the library's choice for the
  column at hand (\<^verbatim>\<open>123\<close> in a column of integers, \<^verbatim>\<open>123.0\<close> in a column of floats).
\<close>

fun astype_str :: "(number \<Rightarrow> string) \<Rightarrow> cell \<Rightarrow> cell" where
  "astype_str text NaN = Str ''nan''"
| "astype_str text (Str s) = Str s"
| "astype_str text (Num n) = Str (text n)"

text \<open>\<^verbatim>\<open>Series.str.strip()\<close>: an element that is not text becomes missing.\<close>

fun str_strip :: "cell \<Rightarrow> cell" where
  "str_strip (Str s) = Str (strip s)"
| "str_strip c = NaN"

text \<open>
  \<^verbatim>\<open>pd.to_numeric(..., errors='coerce')\<close>: a number stays, a missing value stays
  missing, text goes through the literal reader, and text it does not read as a number
  becomes missing.
\<close>

fun to_numeric :: "(string \<Rightarrow> number option) \<Rightarrow> cell \<Rightarrow> cell" where
  "to_numeric parse NaN = NaN"
| "to_numeric parse (Num n) = Num n"
| "to_numeric parse (Str s) = (case parse s of None \<Rightarrow> NaN | Some n \<Rightarrow> Num n)"

subsection \<open>The DataFrame operations the script uses\<close>

text \<open>The cell of a row under a label; missing when the row does not reach the column.\<close>

definition cell_at :: "string list \<Rightarrow> cell list \<Rightarrow> string \<Rightarrow> cell" where
  "cell_at cols r l = (case map_of (zip cols r) l of None \<Rightarrow> NaN | Some c \<Rightarrow> c)"

text \<open>\<^verbatim>\<open>df[[l1, ..., ln]]\<close>: the listed columns in the listed order; \<open>KeyError\<close> when a label
  is not a column.\<close>

definition getitem :: "string list \<Rightarrow> dataframe \<Rightarrow> error + dataframe" where
  "getitem labels df =
     (if set labels \<subseteq> set (columns df)
      then Inr \<lparr>columns = labels, rows = map (\<lambda>r. map (cell_at (columns df) r) labels) (rows df)\<rparr>
      else Inl KeyError)"

text \<open>\<^verbatim>\<open>df.rename(columns=d)\<close>: a label that is a key of \<open>d\<close> is replaced, the others stay.\<close>

definition rename :: "(string \<times> string) list \<Rightarrow> dataframe \<Rightarrow> dataframe" where
  "rename d df =
     df\<lparr>columns := map (\<lambda>c. case map_of d c of None \<Rightarrow> c | Some c' \<Rightarrow> c') (columns df)\<rparr>"

text \<open>\<^verbatim>\<open>df[c]\<close>, the cells of one column from the first row to the last.\<close>

definition column :: "string \<Rightarrow> dataframe \<Rightarrow> cell list" where
  "column c df = map (\<lambda>r. cell_at (columns df) r c) (rows df)"

text \<open>
  \<^verbatim>\<open>df[c] = f(df[c])\<close> for a function \<open>f\<close> from a column to a column: reading the column
  raises \<open>KeyError\<close> when \<open>c\<close> is not a label; otherwise the cells of the column are
  replaced, row by row, by the cells of the new one and nothing else changes.
\<close>

definition setitem :: "string \<Rightarrow> (cell list \<Rightarrow> cell list) \<Rightarrow> dataframe \<Rightarrow> error + dataframe" where
  "setitem c f df =
     (if c \<in> set (columns df)
      then Inr (df\<lparr>rows := map2 (\<lambda>r v. map2 (\<lambda>k x. if k = c then v else x) (columns df) r)
                               (rows df) (f (column c df))\<rparr>)
      else Inl KeyError)"

text \<open>\<^verbatim>\<open>df.dropna()\<close>: a row with a missing value in any column goes; order is kept.\<close>

definition dropna :: "dataframe \<Rightarrow> dataframe" where
  "dropna df = df\<lparr>rows := filter (\<lambda>r. NaN \<notin> set r) (rows df)\<rparr>"

text \<open>
  \<^verbatim>\<open>to_json(orient='records')\<close>: one object per row, keyed by the column labels in
  column order. The serializer writes \<^verbatim>\<open>null\<close> for a missing value and for an infinity,
  and for a finite number the decimal \<open>dump\<close> gives.
\<close>

fun json_of :: "(rat \<Rightarrow> rat) \<Rightarrow> cell \<Rightarrow> json" where
  "json_of dump NaN = JNull"
| "json_of dump (Str s) = JString s"
| "json_of dump (Num (Finite q)) = JNumber (dump q)"
| "json_of dump (Num PosInf) = JNull"
| "json_of dump (Num NegInf) = JNull"

definition records :: "(rat \<Rightarrow> rat) \<Rightarrow> dataframe \<Rightarrow> jobject list" where
  "records dump df = map (\<lambda>r. zip (columns df) (map (json_of dump) r)) (rows df)"

subsection \<open>Lines 7 to 21: select, rename, clean, drop\<close>

definition clean ::
  "(string \<Rightarrow> number option) \<Rightarrow> (cell list \<Rightarrow> number \<Rightarrow> string) \<Rightarrow> dataframe \<Rightarrow>
   error + dataframe" where
  "clean parse repr df0 =
     seq (getitem [''Brand'', ''Part No'', ''Root Part No'', ''MRP'', ''GST%''] df0) (\<lambda>df1.
     seq (Inr (rename [(''Part No'', ''part_no''), (''Root Part No'', ''root_part_no''),
                       (''Brand'', ''brand''), (''MRP'', ''mrp''), (''GST%'', ''gst_percent'')] df1)) (\<lambda>df2.
     seq (setitem ''part_no'' (\<lambda>s. map str_strip (map (astype_str (repr s)) s)) df2) (\<lambda>df3.
     seq (setitem ''root_part_no'' (\<lambda>s. map str_strip (map (astype_str (repr s)) s)) df3) (\<lambda>df4.
     seq (setitem ''brand'' (\<lambda>s. map str_strip (map (astype_str (repr s)) s)) df4) (\<lambda>df5.
     seq (setitem ''mrp'' (map (to_numeric parse)) df5) (\<lambda>df6.
     seq (setitem ''gst_percent'' (map (to_numeric parse)) df6) (\<lambda>df7.
     Inr (dropna df7))))))))"

subsection \<open>Files, the console and the whole script\<close>

text \<open>
  What a path of the working directory holds: a workbook (its first sheet as the table
  \<^verbatim>\<open>read_excel\<close> loads from it), a JSON array of records, a file the process may not
  read, or bytes that are no workbook.
\<close>

datatype content = Workbook dataframe | JsonFile "jobject list" | Unreadable | Junk

text \<open>
  The working directory: what each path holds, the directories there are, the paths
  the process has no right to write (a file it may not overwrite, a directory it may
  not create a file in), and the lines printed so far.
\<close>

record world =
  files :: "string \<rightharpoonup> content"
  dirs :: "string set"
  locked :: "string set"
  stdout :: "string list"

datatype exit = Finished | Raised error

text \<open>Line 5, \<^verbatim>\<open>pd.read_excel(path)\<close>.\<close>

definition read_excel :: "world \<Rightarrow> string \<Rightarrow> error + dataframe" where
  "read_excel w path =
     (case files w path of
        None \<Rightarrow> Inl FileNotFoundError
      | Some (Workbook df) \<Rightarrow> Inr df
      | Some Unreadable \<Rightarrow> Inl PermissionError
      | Some (JsonFile js) \<Rightarrow> Inl ValueError
      | Some Junk \<Rightarrow> Inl ValueError)"

text \<open>The directory part of a relative path: what stands before its last slash.\<close>

definition dirname :: "string \<Rightarrow> string" where
  "dirname path = butlast (rev (dropWhile (\<lambda>c. c \<noteq> CHR ''/'') (rev path)))"

text \<open>
  Line 23, \<^verbatim>\<open>df.to_json(path, orient='records', lines=False)\<close>: the whole document
  replaces what the path held. The library refuses to write into a directory that does
  not exist; opening the path fails when it is a directory, when the file there may not
  be overwritten, or when there is no file yet and none may be created in its
  directory. In each of these cases nothing is written.
\<close>

definition to_json :: "(rat \<Rightarrow> rat) \<Rightarrow> dataframe \<Rightarrow> string \<Rightarrow> world \<Rightarrow> error + world" where
  "to_json dump df path w =
     (if dirname path \<noteq> [] \<and> dirname path \<notin> dirs w then Inl OSError
      else if path \<in> dirs w then Inl OSError
      else if path \<in> locked w \<or> (files w path = None \<and> dirname path \<in> locked w)
        then Inl PermissionError
      else Inr (w\<lparr>files := (files w)(path \<mapsto> JsonFile (records dump df))\<rparr>))"

text \<open>The decimal text of a length, as the f-string of line 24 formats it.\<close>

fun str_nat :: "nat \<Rightarrow> string" where
  "str_nat n =
     (if n < 10 then [char_of (48 + n)] else str_nat (n div 10) @ [char_of (48 + n mod 10)])"

definition print :: "string \<Rightarrow> world \<Rightarrow> world" where
  "print line w = w\<lparr>stdout := stdout w @ [line]\<rparr>"

text \<open>
  The script, top to bottom. An exception ends the run where it is raised; nothing
  before line 23 touches a file or the console.
\<close>

definition script ::
  "(string \<Rightarrow> number option) \<Rightarrow> (cell list \<Rightarrow> number \<Rightarrow> string) \<Rightarrow> (rat \<Rightarrow> rat) \<Rightarrow> world \<Rightarrow>
   exit \<times> world" where
  "script parse repr dump w =
     (case read_excel w ''master_price_list.xlsx'' of
        Inl e \<Rightarrow> (Raised e, w)
      | Inr df0 \<Rightarrow>
          (case clean parse repr df0 of
             Inl e \<Rightarrow> (Raised e, w)
           | Inr df \<Rightarrow>
               (case to_json dump df ''public/master_price_list.json'' w of
                  Inl e \<Rightarrow> (Raised e, w)
                | Inr w' \<Rightarrow>
                    (Finished,
                     print (''Converted '' @ str_nat (length (rows df)) @
                            '' rows to public/master_price_list.json'') w'))))"

subsection \<open>Notions the properties are stated with\<close>

text \<open>
  What lines 15 to 19 make of one row of the loaded table, in the order of the five
  output columns. That the column-wise script acts row by row in this way is proved
  below (\<open>clean_by_rows\<close>), not assumed.
\<close>

definition clean_row ::
  "(string \<Rightarrow> number option) \<Rightarrow> (cell list \<Rightarrow> number \<Rightarrow> string) \<Rightarrow> dataframe \<Rightarrow> cell list \<Rightarrow>
   cell list" where
  "clean_row parse repr df0 r =
     [str_strip (astype_str (repr (column ''Brand'' df0)) (cell_at (columns df0) r ''Brand'')),
      str_strip (astype_str (repr (column ''Part No'' df0)) (cell_at (columns df0) r ''Part No'')),
      str_strip (astype_str (repr (column ''Root Part No'' df0))
        (cell_at (columns df0) r ''Root Part No'')),
      to_numeric parse (cell_at (columns df0) r ''MRP''),
      to_numeric parse (cell_at (columns df0) r ''GST%'')]"

text \<open>A cell is numerically parsable when numeric coercion does not leave it missing.\<close>

definition parsable :: "(string \<Rightarrow> number option) \<Rightarrow> cell \<Rightarrow> bool" where
  "parsable parse c \<longleftrightarrow> to_numeric parse c \<noteq> NaN"

definition numeric_ok :: "(string \<Rightarrow> number option) \<Rightarrow> string list \<Rightarrow> cell list \<Rightarrow> bool" where
  "numeric_ok parse cols r \<longleftrightarrow>
     parsable parse (cell_at cols r ''MRP'') \<and> parsable parse (cell_at cols r ''GST%'')"

text \<open>
  The survival condition in the specification's words (P2): both numeric fields parse
  and none of the three string fields is absent.
\<close>

definition spec_survives :: "(string \<Rightarrow> number option) \<Rightarrow> string list \<Rightarrow> cell list \<Rightarrow> bool" where
  "spec_survives parse cols r \<longleftrightarrow>
     numeric_ok parse cols r \<and> cell_at cols r ''Brand'' \<noteq> NaN \<and>
     cell_at cols r ''Part No'' \<noteq> NaN \<and> cell_at cols r ''Root Part No'' \<noteq> NaN"

text \<open>The JSON object written for a row that is kept.\<close>

definition record_of ::
  "(string \<Rightarrow> number option) \<Rightarrow> (cell list \<Rightarrow> number \<Rightarrow> string) \<Rightarrow> (rat \<Rightarrow> rat) \<Rightarrow> dataframe \<Rightarrow>
   cell list \<Rightarrow> jobject" where
  "record_of parse repr dump df0 r =
     zip [''brand'', ''part_no'', ''root_part_no'', ''mrp'', ''gst_percent'']
         (map (json_of dump) (clean_row parse repr df0 r))"

text \<open>
  Numeric coercion in the specification's words (step 4): the number found in a cell.
  A number cell holds it, a text cell holds it when the text parses, a missing cell
  holds none.
\<close>

definition reads_as :: "(string \<Rightarrow> number option) \<Rightarrow> cell \<Rightarrow> number option" where
  "reads_as parse c = (case c of NaN \<Rightarrow> None | Str s \<Rightarrow> parse s | Num n \<Rightarrow> Some n)"

text \<open>
  Two tables agree on a list of labels: each has all of them as columns, and row for
  row the cells under them are the same.
\<close>

definition same_on :: "string list \<Rightarrow> dataframe \<Rightarrow> dataframe \<Rightarrow> bool" where
  "same_on labels a b \<longleftrightarrow>
     set labels \<subseteq> set (columns a) \<and> set labels \<subseteq> set (columns b) \<and>
     map (\<lambda>r. map (cell_at (columns a) r) labels) (rows a) =
     map (\<lambda>r. map (cell_at (columns b) r) labels) (rows b)"

subsection \<open>Example inputs\<close>

text \<open>
  Instances of the three parameters for the examples: a reader of unsigned decimal
  integers, a renderer that writes the integer part of a number whatever the column,
  and a serializer that rounds to ten decimals.
\<close>

fun read_digits :: "string \<Rightarrow> nat \<Rightarrow> nat option" where
  "read_digits [] acc = Some acc"
| "read_digits (c # cs) acc =
     (if 48 \<le> (of_char c :: nat) \<and> (of_char c :: nat) \<le> 57
      then read_digits cs (10 * acc + (of_char c - 48))
      else None)"

definition plain_digits :: "string \<Rightarrow> number option" where
  "plain_digits s = (if s = [] then None else map_option (\<lambda>n. Finite (of_nat n)) (read_digits s 0))"

fun number_text :: "cell list \<Rightarrow> number \<Rightarrow> string" where
  "number_text col (Finite q) = (if q < 0 then ''-'' else []) @ str_nat (nat \<lfloor>\<bar>q\<bar>\<rfloor>)"
| "number_text col PosInf = ''inf''"
| "number_text col NegInf = ''-inf''"

definition ten_places :: "rat \<Rightarrow> rat" where
  "ten_places q = of_int (round (q * 10000000000)) / 10000000000"

text \<open>
  The specification's example sheet, with one more column: the second row's price is
  no number, the third row's brand has blanks around it.
\<close>

definition price_list :: dataframe where
  "price_list =
     \<lparr>columns = [''Brand'', ''Part No'', ''Root Part No'', ''MRP'', ''GST%'', ''Notes''],
      rows = [[Str ''Acme'', Str ''P1'', Str ''R1'', Num (Finite 100), Num (Finite 18), NaN],
              [Str ''Bolt'', Str ''P2'', Str ''R2'', Str ''abc'', Num (Finite 5), Str ''x''],
              [Str ''  Cam  '', Str ''P3'', Str ''R3'', Num (Finite (101 / 2)), Str ''12'', NaN]]\<rparr>"

text \<open>A working directory that holds a sheet and the output directory.\<close>

definition desk :: "dataframe \<Rightarrow> world" where
  "desk df =
     \<lparr>files = [''master_price_list.xlsx'' \<mapsto> Workbook df], dirs = {''public''}, locked = {},
      stdout = []\<rparr>"

text \<open>One row with an empty brand cell and both numbers in place.\<close>

definition no_brand_list :: dataframe where
  "no_brand_list =
     \<lparr>columns = [''Brand'', ''Part No'', ''Root Part No'', ''MRP'', ''GST%''],
      rows = [[NaN, Str ''P1'', Str ''R1'', Num (Finite 100), Num (Finite 18)]]\<rparr>"

text \<open>One row with a price below zero.\<close>

definition negative_list :: dataframe where
  "negative_list =
     \<lparr>columns = [''Brand'', ''Part No'', ''Root Part No'', ''MRP'', ''GST%''],
      rows = [[Str ''Acme'', Str ''P1'', Str ''R1'', Num (Finite (- 5)), Num (Finite 18)]]\<rparr>"

text \<open>
  One row with an infinite price: what a sheet holds after loading when the price cell
  of a numeric column is the text \<^verbatim>\<open>inf\<close>.
\<close>

definition infinite_list :: dataframe where
  "infinite_list =
     \<lparr>columns = [''Brand'', ''Part No'', ''Root Part No'', ''MRP'', ''GST%''],
      rows = [[Str ''Acme'', Str ''P1'', Str ''R1'', Num PosInf, Num (Finite 18)]]\<rparr>"

text \<open>
  Two rows: the first has an empty brand cell and its price as text, the second has a
  price that is no number.
\<close>

definition patchy_list :: dataframe where
  "patchy_list =
     \<lparr>columns = [''Brand'', ''Part No'', ''Root Part No'', ''MRP'', ''GST%''],
      rows = [[NaN, Str ''P1'', Str ''R1'', Str ''100'', Num (Finite 18)],
              [Str ''Bolt'', Str ''P2'', Str ''R2'', Str ''abc'', Num (Finite 5)]]\<rparr>"

text \<open>A sheet that lacks the tax column.\<close>

definition no_tax_list :: dataframe where
  "no_tax_list =
     \<lparr>columns = [''Brand'', ''Part No'', ''Root Part No'', ''MRP''],
      rows = [[Str ''Acme'', Str ''P1'', Str ''R1'', Num (Finite 100)]]\<rparr>"

text \<open>The example sheet without its extra column.\<close>

definition bare_list :: dataframe where
  "bare_list =
     \<lparr>columns = [''Brand'', ''Part No'', ''Root Part No'', ''MRP'', ''GST%''],
      rows = [[Str ''Acme'', Str ''P1'', Str ''R1'', Num (Finite 100), Num (Finite 18)],
              [Str ''Bolt'', Str ''P2'', Str ''R2'', Str ''abc'', Num (Finite 5)],
              [Str ''  Cam  '', Str ''P3'', Str ''R3'', Num (Finite (101 / 2)), Str ''12'']]\<rparr>"

text \<open>A working directory with a given sheet saved at the source path.\<close>

definition save_sheet :: "dataframe \<Rightarrow> world \<Rightarrow> world" where
  "save_sheet df w = w\<lparr>files := (files w)(''master_price_list.xlsx'' \<mapsto> Workbook df)\<rparr>"

text \<open>A working directory whose sheet lacks a column and that holds the output of an
  earlier run.\<close>

definition stale_desk :: world where
  "stale_desk =
     \<lparr>files = [''master_price_list.xlsx'' \<mapsto> Workbook no_tax_list,
               ''public/master_price_list.json'' \<mapsto> JsonFile []],
      dirs = {''public''}, locked = {}, stdout = []\<rparr>"

text \<open>The input of the script is usable: the source path holds a workbook whose sheet
  has the five columns.\<close>

definition loadable :: "world \<Rightarrow> bool" where
  "loadable w \<longleftrightarrow>
     (case files w ''master_price_list.xlsx'' of
        Some (Workbook df0) \<Rightarrow>
          set [''Brand'', ''Part No'', ''Root Part No'', ''MRP'', ''GST%''] \<subseteq> set (columns df0)
      | Some (JsonFile js) \<Rightarrow> False
      | Some Unreadable \<Rightarrow> False
      | Some Junk \<Rightarrow> False
      | None \<Rightarrow> False)"

section \<open>Properties\<close>

subsection \<open>The script acts row by row\<close>

lemma map2_same: "map2 f xs (map h xs) = map (\<lambda>x. f x (h x)) xs"
  by (induction xs) simp_all

lemma setitem_pointwise:
  "setitem c (\<lambda>s. map (g s) s) df =
     (if c \<in> set (columns df)
      then Inr (df\<lparr>rows := map (\<lambda>r. map2 (\<lambda>k x. if k = c
                  then g (column c df) (cell_at (columns df) r c) else x) (columns df) r) (rows df)\<rparr>)
      else Inl KeyError)"
proof -
  have "map (g (column c df)) (column c df) =
      map (\<lambda>r. g (column c df) (cell_at (columns df) r c)) (rows df)"
    by (simp add: column_def)
  then show ?thesis
    by (simp add: setitem_def map2_same)
qed

lemma clean_by_rows:
  "clean parse repr df0 =
     (if set [''Brand'', ''Part No'', ''Root Part No'', ''MRP'', ''GST%''] \<subseteq> set (columns df0)
      then Inr \<lparr>columns = [''brand'', ''part_no'', ''root_part_no'', ''mrp'', ''gst_percent''],
                rows = filter (\<lambda>r. NaN \<notin> set r) (map (clean_row parse repr df0) (rows df0))\<rparr>
      else Inl KeyError)"
proof -
  have row: "clean_row parse repr df0 =
      (\<lambda>r. [str_strip (astype_str (repr (column ''Brand'' df0)) (cell_at (columns df0) r ''Brand'')),
            str_strip (astype_str (repr (column ''Part No'' df0)) (cell_at (columns df0) r ''Part No'')),
            str_strip (astype_str (repr (column ''Root Part No'' df0))
              (cell_at (columns df0) r ''Root Part No'')),
            to_numeric parse (cell_at (columns df0) r ''MRP''),
            to_numeric parse (cell_at (columns df0) r ''GST%'')])"
    by (rule ext) (simp add: clean_row_def)
  have strings: "setitem c (\<lambda>s. map str_strip (map (astype_str (repr s)) s)) df =
      setitem c (\<lambda>s. map (\<lambda>x. str_strip (astype_str (repr s) x)) s) df" for c df
    by (simp add: comp_def)
  have numbers: "setitem c (map (to_numeric parse)) df =
      setitem c (\<lambda>s. map (to_numeric parse) s) df" for c df
    by simp
  show ?thesis
    unfolding row clean_def strings numbers setitem_pointwise
    by (simp add: seq_def getitem_def rename_def dropna_def comp_def column_def cell_at_def)
qed

lemma str_strip_astype_str: "str_strip (astype_str text c) \<noteq> NaN"
  by (cases c) simp_all

lemma clean_row_complete:
  "NaN \<notin> set (clean_row parse repr df0 r) \<longleftrightarrow> numeric_ok parse (columns df0) r"
  using str_strip_astype_str [THEN not_sym]
  by (auto simp add: clean_row_def numeric_ok_def parsable_def)

lemma clean_by_filter:
  "clean parse repr df0 =
     (if set [''Brand'', ''Part No'', ''Root Part No'', ''MRP'', ''GST%''] \<subseteq> set (columns df0)
      then Inr \<lparr>columns = [''brand'', ''part_no'', ''root_part_no'', ''mrp'', ''gst_percent''],
                rows = map (clean_row parse repr df0)
                         (filter (numeric_ok parse (columns df0)) (rows df0))\<rparr>
      else Inl KeyError)"
  by (simp add: clean_by_rows filter_map comp_def clean_row_complete del: set_simps)

text \<open>
  Numeric coercion, lines 18 and 19, does what the specification says of it: a cell
  keeps the number found in it and is missing when none is found.
\<close>

lemma to_numeric_reads:
  "to_numeric parse c = (case reads_as parse c of None \<Rightarrow> NaN | Some n \<Rightarrow> Num n)"
  by (cases c) (simp_all add: reads_as_def)

lemma parsable_reads: "parsable parse c \<longleftrightarrow> reads_as parse c \<noteq> None"
  by (simp add: parsable_def to_numeric_reads split: option.splits)

subsection \<open>Stripping\<close>

lemma strip_no_leading_space: "dropWhile isspace (strip s) = strip s"
proof (cases "strip s = []")
  case True
  then show ?thesis by simp
next
  case False
  let ?t = "dropWhile isspace s"
  have split: "?t = strip s @ rev (takeWhile isspace (rev ?t))"
  proof -
    have "strip s @ rev (takeWhile isspace (rev ?t)) =
          rev (takeWhile isspace (rev ?t) @ dropWhile isspace (rev ?t))"
      by (simp only: strip_def rev_append)
    also have "\<dots> = ?t"
      by (simp only: takeWhile_dropWhile_id rev_rev_ident)
    finally show ?thesis
      by (rule sym)
  qed
  have nonempty: "?t \<noteq> []"
  proof
    assume "?t = []"
    with split have "strip s = []"
      by (metis append_is_Nil_conv)
    with False show False
      by contradiction
  qed
  then have "\<not> isspace (hd ?t)"
    by (rule hd_dropWhile)
  moreover from False split have "hd ?t = hd (strip s)"
    by (metis hd_append2)
  ultimately show ?thesis
    by (simp add: dropWhile_eq_self_iff)
qed

text \<open>
  C8. Stripping is idempotent: stripping a stripped string changes nothing, for every
  string.
\<close>

theorem strip_idempotent: "strip (strip s) = strip s"
proof -
  have "strip (strip s) = rev (dropWhile isspace (rev (strip s)))"
    by (simp add: strip_def [of "strip s"] strip_no_leading_space)
  also have "\<dots> = rev (dropWhile isspace (dropWhile isspace (rev (dropWhile isspace s))))"
    by (simp add: strip_def)
  also have "\<dots> = strip s"
    by (simp add: strip_def)
  finally show ?thesis .
qed

subsection \<open>What is written\<close>

lemma records_clean:
  "clean parse repr df0 = Inr df \<Longrightarrow>
   records dump df = map (record_of parse repr dump df0)
     (filter (numeric_ok parse (columns df0)) (rows df0))"
  by (auto simp add: clean_by_filter records_def record_of_def split: if_splits)

lemma length_filter_eq_iff: "length (filter P xs) = length xs \<longleftrightarrow> list_all P xs"
proof (induction xs)
  case Nil
  show ?case by simp
next
  case (Cons x xs)
  have "length (filter P xs) \<noteq> Suc (length xs)"
    by (metis length_filter_le Suc_n_not_le_n)
  with Cons show ?case
    by auto
qed

lemma script_run:
  assumes "files w ''master_price_list.xlsx'' = Some (Workbook df0)"
    and "set [''Brand'', ''Part No'', ''Root Part No'', ''MRP'', ''GST%''] \<subseteq> set (columns df0)"
    and "''public'' \<in> dirs w"
    and "''public/master_price_list.json'' \<notin> dirs w"
    and "''public/master_price_list.json'' \<notin> locked w"
    and "''public'' \<notin> locked w"
  shows "script parse repr dump w =
     (Finished,
      w\<lparr>files := (files w)(''public/master_price_list.json'' \<mapsto>
           JsonFile (map (record_of parse repr dump df0)
                      (filter (numeric_ok parse (columns df0)) (rows df0)))),
        stdout := stdout w @
          [''Converted '' @ str_nat (length (filter (numeric_ok parse (columns df0)) (rows df0))) @
           '' rows to public/master_price_list.json'']\<rparr>)"
proof -
  have d: "dirname ''public/master_price_list.json'' = ''public''"
    by (simp add: dirname_def)
  obtain df where df: "clean parse repr df0 = Inr df"
    and len: "length (rows df) = length (filter (numeric_ok parse (columns df0)) (rows df0))"
    using assms(2) by (simp add: clean_by_filter del: set_simps)
  from df have recs: "records dump df = map (record_of parse repr dump df0)
      (filter (numeric_ok parse (columns df0)) (rows df0))"
    by (rule records_clean)
  show ?thesis
    using assms(1,3,4,5,6)
    by (simp add: script_def read_excel_def df to_json_def d recs len print_def)
qed

subsection \<open>Which rows are kept\<close>

text \<open>
  C1, as the specification states it: a row is in the output exactly when both numeric
  fields parse and none of the three string cells is absent. The script does not do
  that. A row whose brand cell is empty, with both numbers in place, fails the stated
  condition and is kept all the same, its brand now the text \<^verbatim>\<open>nan\<close>.
\<close>

theorem absent_brand_row_is_kept:
  "\<not> spec_survives plain_digits (columns no_brand_list)
        [NaN, Str ''P1'', Str ''R1'', Num (Finite 100), Num (Finite 18)] \<and>
   rows no_brand_list = [[NaN, Str ''P1'', Str ''R1'', Num (Finite 100), Num (Finite 18)]] \<and>
   clean plain_digits number_text no_brand_list =
     Inr \<lparr>columns = [''brand'', ''part_no'', ''root_part_no'', ''mrp'', ''gst_percent''],
          rows = [[Str ''nan'', Str ''P1'', Str ''R1'', Num (Finite 100), Num (Finite 18)]]\<rparr>"
  by (simp add: clean_by_rows clean_row_def no_brand_list_def spec_survives_def cell_at_def
      strip_def isspace_def)

text \<open>
  C1, amended: when the table has the five columns, the rows after line 21 are the
  cleaned forms of exactly those input rows whose price and tax cells both parse as
  numbers, in input order. The string cells take no part in the selection.
\<close>

theorem kept_rows_are_the_parsable_rows:
  assumes "set [''Brand'', ''Part No'', ''Root Part No'', ''MRP'', ''GST%''] \<subseteq> set (columns df0)"
  shows "clean parse repr df0 =
     Inr \<lparr>columns = [''brand'', ''part_no'', ''root_part_no'', ''mrp'', ''gst_percent''],
          rows = map (clean_row parse repr df0)
                   (filter (\<lambda>r. parsable parse (cell_at (columns df0) r ''MRP'') \<and>
                                parsable parse (cell_at (columns df0) r ''GST%''))
                      (rows df0))\<rparr>"
proof -
  have "numeric_ok parse (columns df0) =
      (\<lambda>r. parsable parse (cell_at (columns df0) r ''MRP'') \<and>
           parsable parse (cell_at (columns df0) r ''GST%''))"
    by (rule ext) (simp add: numeric_ok_def)
  with assms show ?thesis
    by (simp add: clean_by_filter del: set_simps)
qed

theorem kept_rows_are_the_parsable_rows_witness:
  "set [''Brand'', ''Part No'', ''Root Part No'', ''MRP'', ''GST%''] \<subseteq> set (columns price_list) \<and>
   clean plain_digits number_text price_list =
     Inr \<lparr>columns = [''brand'', ''part_no'', ''root_part_no'', ''mrp'', ''gst_percent''],
          rows = [[Str ''Acme'', Str ''P1'', Str ''R1'', Num (Finite 100), Num (Finite 18)],
                  [Str ''Cam'', Str ''P3'', Str ''R3'', Num (Finite (101 / 2)), Num (Finite 12)]]\<rparr>"
proof -
  have cols: "set [''Brand'', ''Part No'', ''Root Part No'', ''MRP'', ''GST%''] \<subseteq> set (columns price_list)"
    by (simp add: price_list_def)
  show ?thesis
    using cols kept_rows_are_the_parsable_rows [OF cols, of plain_digits number_text]
    by (simp add: price_list_def clean_row_def cell_at_def parsable_def plain_digits_def
        strip_def isspace_def)
qed

subsection \<open>The keys of a record\<close>

text \<open>
  C3. Every object of the output has the keys \<open>brand\<close>, \<open>part_no\<close>, \<open>root_part_no\<close>,
  \<open>mrp\<close>, \<open>gst_percent\<close>, each once and in this order: no key more and none less.
\<close>

theorem record_keys:
  assumes "clean parse repr df0 = Inr df" and "obj \<in> set (records dump df)"
  shows "map fst obj = [''brand'', ''part_no'', ''root_part_no'', ''mrp'', ''gst_percent'']"
proof -
  from assms(1) have "records dump df = map (record_of parse repr dump df0)
      (filter (numeric_ok parse (columns df0)) (rows df0))"
    by (rule records_clean)
  with assms(2) obtain r where "obj = record_of parse repr dump df0 r"
    by auto
  then show ?thesis
    by (simp add: record_of_def clean_row_def)
qed

theorem record_keys_witness:
  "clean plain_digits number_text no_brand_list =
     Inr \<lparr>columns = [''brand'', ''part_no'', ''root_part_no'', ''mrp'', ''gst_percent''],
          rows = [[Str ''nan'', Str ''P1'', Str ''R1'', Num (Finite 100), Num (Finite 18)]]\<rparr> \<and>
   [(''brand'', JString ''nan''), (''part_no'', JString ''P1''), (''root_part_no'', JString ''R1''),
    (''mrp'', JNumber 100), (''gst_percent'', JNumber 18)]
     \<in> set (records ten_places
          \<lparr>columns = [''brand'', ''part_no'', ''root_part_no'', ''mrp'', ''gst_percent''],
          rows = [[Str ''nan'', Str ''P1'', Str ''R1'', Num (Finite 100), Num (Finite 18)]]\<rparr>) \<and>
   map fst [(''brand'', JString ''nan''), (''part_no'', JString ''P1''), (''root_part_no'', JString ''R1''),
    (''mrp'', JNumber 100), (''gst_percent'', JNumber 18)] =
     [''brand'', ''part_no'', ''root_part_no'', ''mrp'', ''gst_percent'']"
proof -
  have run: "clean plain_digits number_text no_brand_list =
     Inr \<lparr>columns = [''brand'', ''part_no'', ''root_part_no'', ''mrp'', ''gst_percent''],
          rows = [[Str ''nan'', Str ''P1'', Str ''R1'', Num (Finite 100), Num (Finite 18)]]\<rparr>"
    by (simp add: clean_by_rows clean_row_def no_brand_list_def cell_at_def strip_def isspace_def)
  have mem: "[(''brand'', JString ''nan''), (''part_no'', JString ''P1''), (''root_part_no'', JString ''R1''),
    (''mrp'', JNumber 100), (''gst_percent'', JNumber 18)]
     \<in> set (records ten_places
          \<lparr>columns = [''brand'', ''part_no'', ''root_part_no'', ''mrp'', ''gst_percent''],
          rows = [[Str ''nan'', Str ''P1'', Str ''R1'', Num (Finite 100), Num (Finite 18)]]\<rparr>)"
    by (simp add: records_def ten_places_def)
  from run mem record_keys [OF run mem] show ?thesis
    by (intro conjI)
qed

subsection \<open>How many rows are kept\<close>

text \<open>
  C4, as the specification states it: the output is as long as the input only when no
  row had an invalid or missing field among the five. The sheet with one row and an
  empty brand cell has a missing required field, and its one row is written.
\<close>

theorem full_count_despite_absent_brand:
  "\<not> list_all (spec_survives plain_digits (columns no_brand_list)) (rows no_brand_list) \<and>
   clean plain_digits number_text no_brand_list =
     Inr \<lparr>columns = [''brand'', ''part_no'', ''root_part_no'', ''mrp'', ''gst_percent''],
          rows = [[Str ''nan'', Str ''P1'', Str ''R1'', Num (Finite 100), Num (Finite 18)]]\<rparr> \<and>
   length [[Str ''nan'', Str ''P1'', Str ''R1'', Num (Finite 100), Num (Finite 18)]] =
     length (rows no_brand_list)"
  by (simp add: clean_by_rows clean_row_def no_brand_list_def spec_survives_def cell_at_def
      strip_def isspace_def)

text \<open>
  C4, amended: the output never has more rows than the input, and it has as many
  exactly when the price and the tax cell of every input row parse as numbers.
\<close>

theorem count_equal_iff_all_parsable:
  assumes "clean parse repr df0 = Inr df"
  shows "length (rows df) \<le> length (rows df0) \<and>
    (length (rows df) = length (rows df0) \<longleftrightarrow>
     list_all (numeric_ok parse (columns df0)) (rows df0))"
proof -
  from assms have "rows df = map (clean_row parse repr df0)
      (filter (numeric_ok parse (columns df0)) (rows df0))"
    by (auto simp add: clean_by_filter split: if_splits)
  then have "length (rows df) = length (filter (numeric_ok parse (columns df0)) (rows df0))"
    by simp
  then show ?thesis
    by (simp add: length_filter_eq_iff)
qed

theorem count_equal_iff_all_parsable_witness:
  "clean plain_digits number_text price_list =
     Inr \<lparr>columns = [''brand'', ''part_no'', ''root_part_no'', ''mrp'', ''gst_percent''],
          rows = [[Str ''Acme'', Str ''P1'', Str ''R1'', Num (Finite 100), Num (Finite 18)],
                  [Str ''Cam'', Str ''P3'', Str ''R3'', Num (Finite (101 / 2)), Num (Finite 12)]]\<rparr> \<and>
   length (rows price_list) = 3 \<and>
   \<not> list_all (numeric_ok plain_digits (columns price_list)) (rows price_list)"
proof -
  have run: "clean plain_digits number_text price_list =
     Inr \<lparr>columns = [''brand'', ''part_no'', ''root_part_no'', ''mrp'', ''gst_percent''],
          rows = [[Str ''Acme'', Str ''P1'', Str ''R1'', Num (Finite 100), Num (Finite 18)],
                  [Str ''Cam'', Str ''P3'', Str ''R3'', Num (Finite (101 / 2)), Num (Finite 12)]]\<rparr>"
    by (simp add: clean_by_rows clean_row_def price_list_def cell_at_def plain_digits_def
        strip_def isspace_def)
  have len: "length (rows price_list) = 3"
    by (simp add: price_list_def)
  from run len count_equal_iff_all_parsable [OF run] show ?thesis
    by simp
qed

subsection \<open>What decides that a row is written\<close>

text \<open>
  C10. Only the two numeric cells decide whether a row is written. With the sheet in
  place, its five columns present, the output directory there and the output path free
  to write, the run finishes and the output file holds the records of exactly the rows
  in whose price cell and tax cell a number is found (a number cell, or a text that
  parses), in input order. In such a record the price and the tax are the serialised
  forms of the numbers found. An absent string cell (an empty cell of the sheet is
  loaded as the missing value) does not drop the row: its field is the text \<^verbatim>\<open>nan\<close>.
\<close>

theorem only_the_numbers_decide:
  assumes "files w ''master_price_list.xlsx'' = Some (Workbook df0)"
    and "set [''Brand'', ''Part No'', ''Root Part No'', ''MRP'', ''GST%''] \<subseteq> set (columns df0)"
    and "''public'' \<in> dirs w"
    and "''public/master_price_list.json'' \<notin> dirs w"
    and "''public/master_price_list.json'' \<notin> locked w"
    and "''public'' \<notin> locked w"
  shows "fst (script parse repr dump w) = Finished \<and>
    files (snd (script parse repr dump w)) ''public/master_price_list.json'' =
      Some (JsonFile (map (record_of parse repr dump df0)
        (filter (\<lambda>r. reads_as parse (cell_at (columns df0) r ''MRP'') \<noteq> None \<and>
                     reads_as parse (cell_at (columns df0) r ''GST%'') \<noteq> None)
           (rows df0)))) \<and>
    (\<forall>r n. reads_as parse (cell_at (columns df0) r ''MRP'') = Some n \<longrightarrow>
         map_of (record_of parse repr dump df0 r) ''mrp'' = Some (json_of dump (Num n))) \<and>
    (\<forall>r n. reads_as parse (cell_at (columns df0) r ''GST%'') = Some n \<longrightarrow>
         map_of (record_of parse repr dump df0 r) ''gst_percent'' = Some (json_of dump (Num n))) \<and>
    (\<forall>r. cell_at (columns df0) r ''Brand'' = NaN \<longrightarrow>
         map_of (record_of parse repr dump df0 r) ''brand'' = Some (JString ''nan'')) \<and>
    (\<forall>r. cell_at (columns df0) r ''Part No'' = NaN \<longrightarrow>
         map_of (record_of parse repr dump df0 r) ''part_no'' = Some (JString ''nan'')) \<and>
    (\<forall>r. cell_at (columns df0) r ''Root Part No'' = NaN \<longrightarrow>
         map_of (record_of parse repr dump df0 r) ''root_part_no'' = Some (JString ''nan''))"
proof -
  have ok: "numeric_ok parse (columns df0) =
      (\<lambda>r. reads_as parse (cell_at (columns df0) r ''MRP'') \<noteq> None \<and>
           reads_as parse (cell_at (columns df0) r ''GST%'') \<noteq> None)"
    by (rule ext) (simp add: numeric_ok_def parsable_reads)
  have nan: "strip ''nan'' = ''nan''"
    by (simp add: strip_def isspace_def)
  have written: "fst (script parse repr dump w) = Finished \<and>
    files (snd (script parse repr dump w)) ''public/master_price_list.json'' =
      Some (JsonFile (map (record_of parse repr dump df0)
        (filter (numeric_ok parse (columns df0)) (rows df0))))"
    by (simp add: script_run [OF assms])
  have numbers: "reads_as parse c = Some n \<Longrightarrow> to_numeric parse c = Num n" for c n
    by (simp add: to_numeric_reads)
  from written show ?thesis
    unfolding ok by (simp add: record_of_def clean_row_def nan numbers)
qed

theorem only_the_numbers_decide_witness:
  "files (desk patchy_list) ''master_price_list.xlsx'' = Some (Workbook patchy_list) \<and>
   set [''Brand'', ''Part No'', ''Root Part No'', ''MRP'', ''GST%''] \<subseteq> set (columns patchy_list) \<and>
   ''public'' \<in> dirs (desk patchy_list) \<and>
   ''public/master_price_list.json'' \<notin> dirs (desk patchy_list) \<and>
   ''public/master_price_list.json'' \<notin> locked (desk patchy_list) \<and>
   ''public'' \<notin> locked (desk patchy_list) \<and>
   rows patchy_list =
     [[NaN, Str ''P1'', Str ''R1'', Str ''100'', Num (Finite 18)],
      [Str ''Bolt'', Str ''P2'', Str ''R2'', Str ''abc'', Num (Finite 5)]] \<and>
   fst (script plain_digits number_text ten_places (desk patchy_list)) = Finished \<and>
   files (snd (script plain_digits number_text ten_places (desk patchy_list)))
       ''public/master_price_list.json'' =
     Some (JsonFile [[(''brand'', JString ''nan''), (''part_no'', JString ''P1''),
       (''root_part_no'', JString ''R1''), (''mrp'', JNumber 100), (''gst_percent'', JNumber 18)]])"
proof -
  have src: "files (desk patchy_list) ''master_price_list.xlsx'' = Some (Workbook patchy_list)"
    by (simp add: desk_def)
  have cols: "set [''Brand'', ''Part No'', ''Root Part No'', ''MRP'', ''GST%''] \<subseteq> set (columns patchy_list)"
    by (simp add: patchy_list_def)
  have dir: "''public'' \<in> dirs (desk patchy_list)"
    by (simp add: desk_def)
  have free: "''public/master_price_list.json'' \<notin> dirs (desk patchy_list)"
    "''public/master_price_list.json'' \<notin> locked (desk patchy_list)"
    "''public'' \<notin> locked (desk patchy_list)"
    by (simp_all add: desk_def)
  have rs: "rows patchy_list =
     [[NaN, Str ''P1'', Str ''R1'', Str ''100'', Num (Finite 18)],
      [Str ''Bolt'', Str ''P2'', Str ''R2'', Str ''abc'', Num (Finite 5)]]"
    by (simp add: patchy_list_def)
  have first: "record_of plain_digits number_text ten_places patchy_list
       [NaN, Str ''P1'', Str ''R1'', Str ''100'', Num (Finite 18)] =
     [(''brand'', JString ''nan''), (''part_no'', JString ''P1''),
       (''root_part_no'', JString ''R1''), (''mrp'', JNumber 100), (''gst_percent'', JNumber 18)]"
    by (simp add: record_of_def clean_row_def patchy_list_def cell_at_def strip_def isspace_def
        plain_digits_def ten_places_def)
  have found: "reads_as plain_digits (cell_at (columns patchy_list)
       [NaN, Str ''P1'', Str ''R1'', Str ''100'', Num (Finite 18)] ''MRP'') \<noteq> None"
     "reads_as plain_digits (cell_at (columns patchy_list)
       [NaN, Str ''P1'', Str ''R1'', Str ''100'', Num (Finite 18)] ''GST%'') \<noteq> None"
     "reads_as plain_digits (cell_at (columns patchy_list)
       [Str ''Bolt'', Str ''P2'', Str ''R2'', Str ''abc'', Num (Finite 5)] ''MRP'') = None"
    by (simp_all add: patchy_list_def cell_at_def reads_as_def plain_digits_def)
  from only_the_numbers_decide [OF src cols dir free, of plain_digits number_text ten_places]
  have "fst (script plain_digits number_text ten_places (desk patchy_list)) = Finished \<and>
   files (snd (script plain_digits number_text ten_places (desk patchy_list)))
       ''public/master_price_list.json'' =
     Some (JsonFile [[(''brand'', JString ''nan''), (''part_no'', JString ''P1''),
       (''root_part_no'', JString ''R1''), (''mrp'', JNumber 100), (''gst_percent'', JNumber 18)]])"
    by (simp add: rs found first)
  with src cols dir free rs show ?thesis
    by (intro conjI) simp_all
qed

subsection \<open>The order of the output\<close>

text \<open>
  C7. The records written are a subsequence of the records of the input rows taken in
  input order: rows are dropped, never moved.
\<close>

theorem written_order_is_input_order:
  assumes "clean parse repr df0 = Inr df"
  shows "subseq (records dump df) (map (record_of parse repr dump df0) (rows df0))"
proof -
  from assms have "records dump df = map (record_of parse repr dump df0)
      (filter (numeric_ok parse (columns df0)) (rows df0))"
    by (rule records_clean)
  moreover have "subseq (filter (numeric_ok parse (columns df0)) (rows df0)) (rows df0)"
    by (rule subseq_filter_left)
  ultimately show ?thesis
    by (simp add: subseq_map)
qed

theorem written_order_is_input_order_witness:
  "clean plain_digits number_text price_list =
     Inr \<lparr>columns = [''brand'', ''part_no'', ''root_part_no'', ''mrp'', ''gst_percent''],
          rows = [[Str ''Acme'', Str ''P1'', Str ''R1'', Num (Finite 100), Num (Finite 18)],
                  [Str ''Cam'', Str ''P3'', Str ''R3'', Num (Finite (101 / 2)), Num (Finite 12)]]\<rparr> \<and>
   subseq
     [[(''brand'', JString ''Acme''), (''part_no'', JString ''P1''), (''root_part_no'', JString ''R1''),
       (''mrp'', JNumber 100), (''gst_percent'', JNumber 18)],
      [(''brand'', JString ''Cam''), (''part_no'', JString ''P3''), (''root_part_no'', JString ''R3''),
       (''mrp'', JNumber (101 / 2)), (''gst_percent'', JNumber 12)]]
     (map (record_of plain_digits number_text ten_places price_list) (rows price_list))"
proof -
  have run: "clean plain_digits number_text price_list =
     Inr \<lparr>columns = [''brand'', ''part_no'', ''root_part_no'', ''mrp'', ''gst_percent''],
          rows = [[Str ''Acme'', Str ''P1'', Str ''R1'', Num (Finite 100), Num (Finite 18)],
                  [Str ''Cam'', Str ''P3'', Str ''R3'', Num (Finite (101 / 2)), Num (Finite 12)]]\<rparr>"
    by (simp add: clean_by_rows clean_row_def price_list_def cell_at_def plain_digits_def
        strip_def isspace_def)
  from written_order_is_input_order [OF run, of ten_places] have "subseq
     [[(''brand'', JString ''Acme''), (''part_no'', JString ''P1''), (''root_part_no'', JString ''R1''),
       (''mrp'', JNumber 100), (''gst_percent'', JNumber 18)],
      [(''brand'', JString ''Cam''), (''part_no'', JString ''P3''), (''root_part_no'', JString ''R3''),
       (''mrp'', JNumber (101 / 2)), (''gst_percent'', JNumber 12)]]
     (map (record_of plain_digits number_text ten_places price_list) (rows price_list))"
    by (simp add: records_def ten_places_def)
  with run show ?thesis
    by (intro conjI)
qed

subsection \<open>The fields of a record\<close>

text \<open>
  C5, as the specification states it: the price of every output record is a number
  that is not negative. The script compares no number with zero. A row priced at minus
  five is written with that price.
\<close>

theorem negative_price_is_written:
  "map_sum id (records ten_places) (clean plain_digits number_text negative_list) =
     Inr [[(''brand'', JString ''Acme''), (''part_no'', JString ''P1''),
           (''root_part_no'', JString ''R1''), (''mrp'', JNumber (- 5)),
           (''gst_percent'', JNumber 18)]] \<and>
   (- 5 :: rat) < 0"
  by (simp add: clean_by_rows clean_row_def negative_list_def cell_at_def records_def
      strip_def isspace_def ten_places_def)

text \<open>
  C5, amended: every output record is the record of one of the input rows, a number is
  found in that row's own price cell, and when that number is finite the price field
  of the record is a decimal number, the one the serializer writes for it. The sign of
  the number is not looked at, so the price can be negative. What is written for an
  infinite price is left to C2.
\<close>

theorem written_price_is_the_parsed_number:
  assumes "clean parse repr df0 = Inr df" and "obj \<in> set (records dump df)"
  shows "\<exists>r n. r \<in> set (rows df0) \<and> obj = record_of parse repr dump df0 r \<and>
           reads_as parse (cell_at (columns df0) r ''MRP'') = Some n \<and>
           (\<forall>q. n = Finite q \<longrightarrow> map_of obj ''mrp'' = Some (JNumber (dump q)))"
proof -
  from assms(1) have "records dump df = map (record_of parse repr dump df0)
      (filter (numeric_ok parse (columns df0)) (rows df0))"
    by (rule records_clean)
  with assms(2) obtain r where r: "r \<in> set (rows df0)" "numeric_ok parse (columns df0) r"
    and obj: "obj = record_of parse repr dump df0 r"
    by auto
  from r(2) obtain n where n: "reads_as parse (cell_at (columns df0) r ''MRP'') = Some n"
    by (auto simp add: numeric_ok_def parsable_reads)
  then have "to_numeric parse (cell_at (columns df0) r ''MRP'') = Num n"
    by (simp add: to_numeric_reads)
  then have "\<forall>q. n = Finite q \<longrightarrow> map_of obj ''mrp'' = Some (JNumber (dump q))"
    by (simp add: obj record_of_def clean_row_def)
  with r(1) obj n show ?thesis
    by blast
qed

theorem written_price_is_the_parsed_number_witness:
  "clean plain_digits number_text negative_list =
     Inr \<lparr>columns = [''brand'', ''part_no'', ''root_part_no'', ''mrp'', ''gst_percent''],
          rows = [[Str ''Acme'', Str ''P1'', Str ''R1'', Num (Finite (- 5)), Num (Finite 18)]]\<rparr> \<and>
   [(''brand'', JString ''Acme''), (''part_no'', JString ''P1''), (''root_part_no'', JString ''R1''),
    (''mrp'', JNumber (- 5)), (''gst_percent'', JNumber 18)]
     \<in> set (records ten_places
          \<lparr>columns = [''brand'', ''part_no'', ''root_part_no'', ''mrp'', ''gst_percent''],
          rows = [[Str ''Acme'', Str ''P1'', Str ''R1'', Num (Finite (- 5)), Num (Finite 18)]]\<rparr>) \<and>
   (\<exists>r n. r \<in> set (rows negative_list) \<and>
      [(''brand'', JString ''Acme''), (''part_no'', JString ''P1''), (''root_part_no'', JString ''R1''),
       (''mrp'', JNumber (- 5)), (''gst_percent'', JNumber 18)] =
        record_of plain_digits number_text ten_places negative_list r \<and>
      reads_as plain_digits (cell_at (columns negative_list) r ''MRP'') = Some n \<and>
      (\<forall>q. n = Finite q \<longrightarrow> Some (JNumber (- 5)) = Some (JNumber (ten_places q))))"
proof -
  have run: "clean plain_digits number_text negative_list =
     Inr \<lparr>columns = [''brand'', ''part_no'', ''root_part_no'', ''mrp'', ''gst_percent''],
          rows = [[Str ''Acme'', Str ''P1'', Str ''R1'', Num (Finite (- 5)), Num (Finite 18)]]\<rparr>"
    by (simp add: clean_by_rows clean_row_def negative_list_def cell_at_def strip_def isspace_def)
  have mem: "[(''brand'', JString ''Acme''), (''part_no'', JString ''P1''), (''root_part_no'', JString ''R1''),
    (''mrp'', JNumber (- 5)), (''gst_percent'', JNumber 18)]
     \<in> set (records ten_places
          \<lparr>columns = [''brand'', ''part_no'', ''root_part_no'', ''mrp'', ''gst_percent''],
          rows = [[Str ''Acme'', Str ''P1'', Str ''R1'', Num (Finite (- 5)), Num (Finite 18)]]\<rparr>)"
    by (simp add: records_def ten_places_def)
  from written_price_is_the_parsed_number [OF run mem]
  have "\<exists>r n. r \<in> set (rows negative_list) \<and>
      [(''brand'', JString ''Acme''), (''part_no'', JString ''P1''), (''root_part_no'', JString ''R1''),
       (''mrp'', JNumber (- 5)), (''gst_percent'', JNumber 18)] =
        record_of plain_digits number_text ten_places negative_list r \<and>
      reads_as plain_digits (cell_at (columns negative_list) r ''MRP'') = Some n \<and>
      (\<forall>q. n = Finite q \<longrightarrow> Some (JNumber (- 5)) = Some (JNumber (ten_places q)))"
    by simp
  with run mem show ?thesis
    by (intro conjI)
qed

text \<open>A null in a record can only stand for an infinite price or tax.\<close>

lemma json_of_null:
  "json_of dump c = JNull \<longleftrightarrow> c = NaN \<or> c = Num PosInf \<or> c = Num NegInf"
  by (cases "(dump, c)" rule: json_of.cases) simp_all

lemma null_only_for_infinity:
  assumes "clean parse repr df0 = Inr df" and "obj \<in> set (records dump df)"
    and "(k, JNull) \<in> set obj"
  shows "\<exists>r. r \<in> set (rows df0) \<and>
    (k = ''mrp'' \<and> to_numeric parse (cell_at (columns df0) r ''MRP'') \<in> {Num PosInf, Num NegInf} \<or>
     k = ''gst_percent'' \<and> to_numeric parse (cell_at (columns df0) r ''GST%'') \<in> {Num PosInf, Num NegInf})"
proof -
  from assms(1) have "records dump df = map (record_of parse repr dump df0)
      (filter (numeric_ok parse (columns df0)) (rows df0))"
    by (rule records_clean)
  with assms(2) obtain r where r: "r \<in> set (rows df0)" "numeric_ok parse (columns df0) r"
    and obj: "obj = record_of parse repr dump df0 r"
    by auto
  have strs: "json_of dump (str_strip (astype_str t c)) \<noteq> JNull" for c t
    by (cases c) simp_all
  from r(2) have num: "to_numeric parse (cell_at (columns df0) r ''MRP'') \<noteq> NaN"
      "to_numeric parse (cell_at (columns df0) r ''GST%'') \<noteq> NaN"
    by (simp_all add: numeric_ok_def parsable_def)
  from assms(3) have "k = ''mrp'' \<and> json_of dump (to_numeric parse (cell_at (columns df0) r ''MRP'')) = JNull \<or>
      k = ''gst_percent'' \<and> json_of dump (to_numeric parse (cell_at (columns df0) r ''GST%'')) = JNull"
    using strs [THEN not_sym] by (auto simp add: obj record_of_def clean_row_def)
  with num have "k = ''mrp'' \<and> to_numeric parse (cell_at (columns df0) r ''MRP'') \<in> {Num PosInf, Num NegInf} \<or>
     k = ''gst_percent'' \<and> to_numeric parse (cell_at (columns df0) r ''GST%'') \<in> {Num PosInf, Num NegInf}"
    by (auto simp add: json_of_null)
  with r(1) show ?thesis
    by blast
qed

text \<open>
  C2. No record of the output should hold a null field. Line 21 removes the missing
  values, yet an infinite price is no missing value for \<^verbatim>\<open>dropna\<close>, and the serializer
  of line 23 writes it as \<^verbatim>\<open>null\<close>: the record below is written with a null price.
  By \<open>null_only_for_infinity\<close> this is the only way a null gets into the output.
\<close>

theorem infinite_price_is_written_as_null:
  "map_sum id (records ten_places) (clean plain_digits number_text infinite_list) =
     Inr [[(''brand'', JString ''Acme''), (''part_no'', JString ''P1''),
           (''root_part_no'', JString ''R1''), (''mrp'', JNull),
           (''gst_percent'', JNumber 18)]]"
  by (simp add: clean_by_rows clean_row_def infinite_list_def cell_at_def records_def
      strip_def isspace_def ten_places_def)

subsection \<open>Runs that abort\<close>

text \<open>
  C6. When the source path holds no workbook (it is missing, unreadable or no valid
  spreadsheet), or the workbook lacks one of the five columns, the run ends with an
  exception and the working directory is as it was: the output file is neither created
  nor changed, and nothing is printed.
\<close>

theorem aborted_run_leaves_the_output_alone:
  assumes "\<not> loadable w"
  shows "(\<exists>e. fst (script parse repr dump w) = Raised e) \<and>
         snd (script parse repr dump w) = w \<and>
         files (snd (script parse repr dump w)) ''public/master_price_list.json'' =
           files w ''public/master_price_list.json''"
proof -
  from assms have "\<exists>e. script parse repr dump w = (Raised e, w)"
    by (auto simp add: loadable_def script_def read_excel_def clean_by_rows
        split: option.splits content.splits simp del: set_simps)
  then show ?thesis
    by auto
qed

theorem aborted_run_leaves_the_output_alone_witness:
  "\<not> loadable stale_desk \<and>
   (\<exists>e. fst (script plain_digits number_text ten_places stale_desk) = Raised e) \<and>
   snd (script plain_digits number_text ten_places stale_desk) = stale_desk \<and>
   files (snd (script plain_digits number_text ten_places stale_desk))
       ''public/master_price_list.json'' =
     Some (JsonFile [])"
proof -
  have no: "\<not> loadable stale_desk"
    by (simp add: loadable_def stale_desk_def no_tax_list_def)
  have old: "files stale_desk ''public/master_price_list.json'' = Some (JsonFile [])"
    by (simp add: stale_desk_def)
  from no old aborted_run_leaves_the_output_alone [OF no, of plain_digits number_text ten_places]
  show ?thesis
    by simp
qed

subsection \<open>Columns beyond the five\<close>

lemma clean_cong:
  assumes "same_on [''Brand'', ''Part No'', ''Root Part No'', ''MRP'', ''GST%''] a b"
  shows "clean parse repr a = clean parse repr b"
proof -
  let ?five = "[''Brand'', ''Part No'', ''Root Part No'', ''MRP'', ''GST%'']"
  let ?view = "\<lambda>df. map (\<lambda>r. map (cell_at (columns df) r) ?five) (rows df)"
  let ?g = "\<lambda>v cs. [str_strip (astype_str (repr (map (\<lambda>x. x ! 0) v)) (cs ! 0)),
                    str_strip (astype_str (repr (map (\<lambda>x. x ! 1) v)) (cs ! 1)),
                    str_strip (astype_str (repr (map (\<lambda>x. x ! 2) v)) (cs ! 2)),
                    to_numeric parse (cs ! 3), to_numeric parse (cs ! 4)]"
  have rowwise: "map (clean_row parse repr df) (rows df) = map (?g (?view df)) (?view df)" for df
    by (simp add: clean_row_def column_def comp_def)
  from assms have "?view a = ?view b"
    by (simp add: same_on_def)
  then have "map (clean_row parse repr a) (rows a) = map (clean_row parse repr b) (rows b)"
    by (simp only: rowwise)
  moreover from assms have "set ?five \<subseteq> set (columns a)" "set ?five \<subseteq> set (columns b)"
    by (simp_all add: same_on_def)
  ultimately show ?thesis
    by (simp add: clean_by_rows del: set_simps)
qed

text \<open>
  C9. Two sheets that both have the five columns and agree on them row for row give
  the same run from the same working directory: the same exit, the same output file and
  the same printed line, whatever else the sheets hold.
\<close>

theorem extra_columns_are_ignored:
  assumes "same_on [''Brand'', ''Part No'', ''Root Part No'', ''MRP'', ''GST%''] a b"
  shows "fst (script parse repr dump (save_sheet a w)) =
      fst (script parse repr dump (save_sheet b w)) \<and>
    files (snd (script parse repr dump (save_sheet a w))) ''public/master_price_list.json'' =
      files (snd (script parse repr dump (save_sheet b w))) ''public/master_price_list.json'' \<and>
    stdout (snd (script parse repr dump (save_sheet a w))) =
      stdout (snd (script parse repr dump (save_sheet b w)))"
proof -
  from assms have same: "clean parse repr a = clean parse repr b"
    by (rule clean_cong)
  show ?thesis
  proof (cases "clean parse repr b")
    case (Inl e)
    with same show ?thesis
      by (simp add: script_def read_excel_def save_sheet_def)
  next
    case (Inr df)
    with same show ?thesis
      by (simp add: script_def read_excel_def save_sheet_def to_json_def print_def)
  qed
qed

theorem extra_columns_are_ignored_witness:
  "same_on [''Brand'', ''Part No'', ''Root Part No'', ''MRP'', ''GST%''] price_list bare_list \<and>
   price_list \<noteq> bare_list \<and>
   fst (script plain_digits number_text ten_places (save_sheet price_list (desk bare_list))) =
     fst (script plain_digits number_text ten_places (save_sheet bare_list (desk bare_list))) \<and>
   files (snd (script plain_digits number_text ten_places (save_sheet price_list (desk bare_list))))
       ''public/master_price_list.json'' =
     files (snd (script plain_digits number_text ten_places (save_sheet bare_list (desk bare_list))))
       ''public/master_price_list.json'' \<and>
   stdout (snd (script plain_digits number_text ten_places (save_sheet price_list (desk bare_list)))) =
     stdout (snd (script plain_digits number_text ten_places (save_sheet bare_list (desk bare_list))))"
proof -
  have agree: "same_on [''Brand'', ''Part No'', ''Root Part No'', ''MRP'', ''GST%''] price_list bare_list"
    by (simp add: same_on_def price_list_def bare_list_def cell_at_def)
  have differ: "price_list \<noteq> bare_list"
    by (simp add: price_list_def bare_list_def)
  from agree differ
    extra_columns_are_ignored [OF agree, of plain_digits number_text ten_places "desk bare_list"]
  show ?thesis
    by (intro conjI) simp_all
qed

end
